theory Spec2Isabelle
  imports Main
begin

section \<open>Entity model (package types)\<close>

text \<open>
  The package \<open>types\<close> is used by every function below but its file is not among the
  sources. Its struct is reconstructed from the fields the sources read
  (\<open>cd.NodeRole\<close>, \<open>cd.Protocol\<close>, \<open>cd.Port\<close>, \<open>cd.Service\<close>) and the field list of the
  design document; \<open>Protocol\<close> and \<open>NodeRole\<close> are Go strings, since the sources compare
  them with string values, and \<open>Port\<close> is a Go \<open>int\<close>.
\<close>

record ComDetails =
  Direction :: string
  Protocol :: string
  Port :: int
  Namespace :: string
  Service :: string
  Pod :: string
  Container :: string
  NodeRole :: string
  Optional :: bool

record ComMatrix =
  Matrix :: "ComDetails list"

text \<open>
  Modelled from the spec: \<open>types.ComDetails.Equals\<close> is missing from the sources. The
  design document identifies a record by the tuple (direction, protocol, port, namespace,
  serviceName, podName, containerName, nodeRole); \<open>Optional\<close> is not part of it.
\<close>

definition identity ::
  "ComDetails \<Rightarrow> string \<times> string \<times> int \<times> string \<times> string \<times> string \<times> string \<times> string" where
  "identity cd =
     (Direction cd, Protocol cd, Port cd, Namespace cd, Service cd, Pod cd, Container cd,
      NodeRole cd)"

definition Equals :: "ComDetails \<Rightarrow> ComDetails \<Rightarrow> bool" where
  "Equals a b = (identity a = identity b)"

text \<open>
  Modelled from the spec: \<open>types.ComMatrix.Contains\<close> is missing from the sources. It is
  true iff some element of the matrix is \<open>Equals\<close> to the record; written as the loop over
  \<open>m.Matrix\<close> that returns at the first hit.
\<close>

fun containsLoop :: "ComDetails list \<Rightarrow> ComDetails \<Rightarrow> bool" where
  "containsLoop [] cd = False"
| "containsLoop (cd1 # rest) cd = (if Equals cd1 cd then True else containsLoop rest cd)"

definition Contains :: "ComMatrix \<Rightarrow> ComDetails \<Rightarrow> bool" where
  "Contains m cd = containsLoop (Matrix m) cd"

text \<open>
  Modelled from the spec: \<open>types.CleanComDetails\<close> is missing from the sources. It
  returns the records in first-seen order with later duplicates (by identity tuple)
  dropped; written as the loop that appends a record to the result unless the result
  already holds one with the same identity.
\<close>

fun cleanLoop :: "ComDetails list \<Rightarrow> ComDetails list \<Rightarrow> ComDetails list" where
  "cleanLoop res [] = res"
| "cleanLoop res (item # rest) =
     (if containsLoop res item then cleanLoop res rest else cleanLoop (res @ [item]) rest)"

definition CleanComDetails :: "ComDetails list \<Rightarrow> ComDetails list" where
  "CleanComDetails outPuts = cleanLoop [] outPuts"

section \<open>Diff engine (buildMatrixDiff)\<close>

text \<open>
  \<open>consts.CSVHeaders\<close> and the \<open>String\<close> method that \<open>fmt.Sprintf("%s\n", cd)\<close> calls
  belong to packages whose files are missing; both are parameters of the model. The
  accumulator \<open>diff\<close> is threaded through the two loops as in the source.

  The file \<open>cmd/main.go\<close> holds an earlier, inline form of the two loops, without the
  header and without the \<open>rpc.statd\<close> exception. It calls \<open>commatrix.New\<close> with four
  arguments, so it does not belong to the version of the program whose \<open>New\<close> takes
  five; the model follows \<open>buildMatrixDiff\<close>.
\<close>

definition newline :: string where
  "newline = [CHR 0x0A]"

fun declaredLoop ::
  "(ComDetails \<Rightarrow> string) \<Rightarrow> ComMatrix \<Rightarrow> string \<Rightarrow> ComDetails list \<Rightarrow> string" where
  "declaredLoop String mat2 diff [] = diff"
| "declaredLoop String mat2 diff (cd # rest) =
     (if Contains mat2 cd then declaredLoop String mat2 (diff @ String cd @ newline) rest
      else declaredLoop String mat2 (diff @ ''+ '' @ String cd @ newline) rest)"

fun observedLoop ::
  "(ComDetails \<Rightarrow> string) \<Rightarrow> ComMatrix \<Rightarrow> string \<Rightarrow> ComDetails list \<Rightarrow> string" where
  "observedLoop String mat1 diff [] = diff"
| "observedLoop String mat1 diff (cd # rest) =
     (if Service cd = ''rpc.statd'' then observedLoop String mat1 diff rest
      else if \<not> Contains mat1 cd
        then observedLoop String mat1 (diff @ ''- '' @ String cd @ newline) rest
      else observedLoop String mat1 diff rest)"

definition buildMatrixDiff ::
  "string \<Rightarrow> (ComDetails \<Rightarrow> string) \<Rightarrow> ComMatrix \<Rightarrow> ComMatrix \<Rightarrow> string" where
  "buildMatrixDiff CSVHeaders String mat1 mat2 =
     observedLoop String mat1
       (declaredLoop String mat2 (CSVHeaders @ newline) (Matrix mat1)) (Matrix mat2)"

text \<open>The lines of the diff, as a list: the view the design document takes of the output.\<close>

definition declaredLine :: "(ComDetails \<Rightarrow> string) \<Rightarrow> ComMatrix \<Rightarrow> ComDetails \<Rightarrow> string" where
  "declaredLine String mat2 cd = (if Contains mat2 cd then String cd else ''+ '' @ String cd)"

definition undeclared :: "ComMatrix \<Rightarrow> ComDetails \<Rightarrow> bool" where
  "undeclared mat1 cd = (Service cd \<noteq> ''rpc.statd'' \<and> \<not> Contains mat1 cd)"

definition diffLines ::
  "string \<Rightarrow> (ComDetails \<Rightarrow> string) \<Rightarrow> ComMatrix \<Rightarrow> ComMatrix \<Rightarrow> string list" where
  "diffLines CSVHeaders String mat1 mat2 =
     CSVHeaders # map (declaredLine String mat2) (Matrix mat1)
       @ map (\<lambda>cd. ''- '' @ String cd) (filter (undeclared mat1) (Matrix mat2))"

definition writeLines :: "string list \<Rightarrow> string" where
  "writeLines ls = concat (map (\<lambda>l. l @ newline) ls)"

section \<open>Failures\<close>

text \<open>
  A Go \<open>error\<close> is represented by its message. \<open>New\<close>, \<open>getStaticEntries\<close>, \<open>parseFormat\<close> and
  \<open>addFromFile\<close> only return errors; \<open>ApplyFireWallRules\<close> can also panic, so its outcome
  keeps a returned error apart from a panic.
\<close>

type_synonym error = string

datatype failure = Error error | Panic string

section \<open>Firewall rule generator (ApplyFireWallRules)\<close>

text \<open>\<open>fmt.Sprint\<close> of a Go \<open>int\<close>: the decimal digits, with a minus sign when negative.\<close>

definition digitChar :: "nat \<Rightarrow> char" where
  "digitChar d = ''0123456789'' ! d"

fun natDigits :: "nat \<Rightarrow> string" where
  "natDigits n =
     (if n < 10 then [digitChar n] else natDigits (n div 10) @ [digitChar (n mod 10)])"

declare natDigits.simps [simp del]

definition Sprint :: "int \<Rightarrow> string" where
  "Sprint i = (if i < 0 then CHR ''-'' # natDigits (nat (- i)) else natDigits (nat i))"

text \<open>The loop over \<open>m.Matrix\<close> that accumulates the strings \<open>tcp\<close> and \<open>udp\<close>.\<close>

fun portsLoop :: "string \<Rightarrow> string \<Rightarrow> string \<Rightarrow> ComDetails list \<Rightarrow> string \<times> string" where
  "portsLoop role tcp udp [] = (tcp, udp)"
| "portsLoop role tcp udp (cd # rest) =
     (if NodeRole cd \<noteq> role then portsLoop role tcp udp rest
      else portsLoop role
        (if Protocol cd = ''TCP'' then tcp @ Sprint (Port cd) @ '', '' else tcp)
        (if Protocol cd = ''UDP'' then udp @ Sprint (Port cd) @ '', '' else udp)
        rest)"

text \<open>
  The slice expression \<open>s[:len(s)-2]\<close>: Go panics at run time when the upper bound is
  negative, which happens exactly for a string shorter than two bytes; the message
  names the bound.
\<close>

definition sliceBoundsPanic :: "int \<Rightarrow> failure" where
  "sliceBoundsPanic high =
     Panic (''runtime error: slice bounds out of range [:'' @ Sprint high @ '']'')"

definition trimSeparator :: "string \<Rightarrow> failure + string" where
  "trimSeparator s =
     (if int (length s) - 2 < 0 then Inl (sliceBoundsPanic (int (length s) - 2))
      else Inr (take (nat (int (length s) - 2)) s))"

text \<open>The ten commands a node's task hands to \<open>debugPod.Exec\<close>, in the order of the source.\<close>

definition firewallCommands :: "string \<Rightarrow> string \<Rightarrow> string list" where
  "firewallCommands tcpPorts udpPorts =
     [''sudo nft add chain ip filter FIREWALL'',
      ''sudo nft add rule ip filter FIREWALL iif lo accept'',
      ''sudo nft add rule ip filter FIREWALL ct state established,related accept'',
      ''sudo nft add rule ip filter FIREWALL tcp dport { 22 } accept'',
      ''sudo nft add rule ip filter FIREWALL udp dport { 67, 68 }  accept'',
      ''sudo nft add rule ip filter FIREWALL ip protocol icmp accept'',
      ''sudo nft add rule ip filter FIREWALL tcp dport { '' @ tcpPorts @ '' } accept'',
      ''sudo nft add rule ip filter FIREWALL udp dport { '' @ udpPorts @ '' } accept'',
      ''sudo nft add rule ip filter FIREWALL log prefix firewall drop'',
      ''sudo nft add rule ip filter INPUT jump FIREWALL'']"

text \<open>
  The cluster is a collaborator: the node list (or the error of listing), for each node
  its name and the role \<open>nodesutil.GetRole\<close> gives it, whether \<open>debug.New\<close> fails on a node,
  and whether a command fails in the node's debug pod (\<open>None\<close> is success, \<open>Some\<close> the
  error). \<open>debugPod.Clean\<close> only prints on failure and does not change the result.
\<close>

record Node =
  Name :: string
  Role :: string

record cluster =
  nodesList :: "string + Node list"
  debugNew :: "string \<Rightarrow> string option"
  podExec :: "string \<Rightarrow> string \<Rightarrow> string option"

text \<open>A task stops at the first command that fails; \<open>issued\<close> are the commands sent.\<close>

fun execLoop ::
  "(string \<Rightarrow> string option) \<Rightarrow> string list \<Rightarrow> string list \<Rightarrow> string option \<times> string list" where
  "execLoop exec issued [] = (None, issued)"
| "execLoop exec issued (c # rest) =
     (case exec c of
        Some err \<Rightarrow> (Some err, issued @ [c])
      | None \<Rightarrow> execLoop exec (issued @ [c]) rest)"

definition nodeTask :: "cluster \<Rightarrow> string \<Rightarrow> string \<Rightarrow> Node \<Rightarrow> string option \<times> string list" where
  "nodeTask cs tcpPorts udpPorts node =
     (case debugNew cs (Name node) of
        Some err \<Rightarrow> (Some err, [])
      | None \<Rightarrow> execLoop (podExec cs (Name node)) [] (firewallCommands tcpPorts udpPorts))"

text \<open>
  The tasks of the error group run concurrently and \<open>g.Wait\<close> returns the first error
  in time; the model runs them in node order and reports the first error in that order.
  The result is the outcome together with the commands sent to each node of the role.
\<close>

fun firstError :: "(string \<times> string option \<times> string list) list \<Rightarrow> string option" where
  "firstError [] = None"
| "firstError ((n, Some err, cmds) # rest) = Some err"
| "firstError ((n, None, cmds) # rest) = firstError rest"

definition ApplyFireWallRules ::
  "cluster \<Rightarrow> ComMatrix \<Rightarrow> string \<Rightarrow> (failure + unit) \<times> (string \<times> string list) list" where
  "ApplyFireWallRules cs m role =
     (case portsLoop role [] [] (Matrix m) of (tcp, udp) \<Rightarrow>
      (case trimSeparator tcp of
         Inl p \<Rightarrow> (Inl p, [])
       | Inr tcpPorts \<Rightarrow>
      (case trimSeparator udp of
         Inl p \<Rightarrow> (Inl p, [])
       | Inr udpPorts \<Rightarrow>
      (case nodesList cs of
         Inl err \<Rightarrow> (Inl (Panic err), [])
       | Inr items \<Rightarrow>
           (let runs = map (\<lambda>node. (Name node, nodeTask cs tcpPorts udpPorts node))
                         (filter (\<lambda>node. \<not> Role node \<noteq> role) items)
            in ((case firstError runs of Some err \<Rightarrow> Inl (Error err) | None \<Rightarrow> Inr ()),
                map (\<lambda>(n, err, cmds). (n, cmds)) runs))))))"

text \<open>
  The records that feed each port string, as a list: the view the design document takes
  of the port lists.
\<close>

definition rolePorts :: "string \<Rightarrow> string \<Rightarrow> ComDetails list \<Rightarrow> int list" where
  "rolePorts protocol role cds =
     map Port (filter (\<lambda>cd. NodeRole cd = role \<and> Protocol cd = protocol) cds)"

definition renderPorts :: "int list \<Rightarrow> string" where
  "renderPorts ps = concat (map (\<lambda>p. Sprint p @ '', '') ps)"

section \<open>Static catalogue (getStaticEntries)\<close>

text \<open>
  \<open>Env\<close> and \<open>Deployment\<close> are Go \<open>int\<close> types with \<open>iota\<close> constants. The seven tables are
  package-level variables of a file that is not among the sources; the model takes them
  as a parameter.
\<close>

type_synonym Env = int
type_synonym Deployment = int

definition Baremetal :: Env where "Baremetal = 0"
definition AWS :: Env where "AWS = 1"
definition SNO :: Deployment where "SNO = 0"
definition MNO :: Deployment where "MNO = 1"

record staticTables =
  baremetalStaticEntriesMaster :: "ComDetails list"
  baremetalStaticEntriesWorker :: "ComDetails list"
  awsCloudStaticEntriesMaster :: "ComDetails list"
  awsCloudStaticEntriesWorker :: "ComDetails list"
  generalStaticEntriesMaster :: "ComDetails list"
  MNOStaticEntries :: "ComDetails list"
  generalStaticEntriesWorker :: "ComDetails list"

text \<open>The \<open>switch e\<close>: \<open>break\<close> leaves the switch, \<open>default\<close> returns the error.\<close>

definition envEntries :: "staticTables \<Rightarrow> Env \<Rightarrow> Deployment \<Rightarrow> error + ComDetails list" where
  "envEntries T e d =
     (if e = Baremetal then
        (if d = SNO then Inr ([] @ baremetalStaticEntriesMaster T)
         else Inr (([] @ baremetalStaticEntriesMaster T) @ baremetalStaticEntriesWorker T))
      else if e = AWS then
        (if d = SNO then Inr ([] @ awsCloudStaticEntriesMaster T)
         else Inr (([] @ awsCloudStaticEntriesMaster T) @ awsCloudStaticEntriesWorker T))
      else Inl ''invalid value for cluster environment'')"

definition getStaticEntries :: "staticTables \<Rightarrow> Env \<Rightarrow> Deployment \<Rightarrow> error + ComDetails list" where
  "getStaticEntries T e d =
     (case envEntries T e d of
        Inl err \<Rightarrow> Inl err
      | Inr comDetails \<Rightarrow>
          (let comDetails = comDetails @ generalStaticEntriesMaster T in
           if d = SNO then Inr comDetails
           else Inr ((comDetails @ MNOStaticEntries T) @ generalStaticEntriesWorker T)))"

section \<open>Custom entry loader (parseFormat, addFromFile)\<close>

text \<open>
  Modelled from the spec: the type \<open>types.Format\<close> with its values \<open>JSON\<close>, \<open>YAML\<close>, \<open>CSV\<close>
  and \<open>FormatErr\<close>, and the string constants \<open>FormatJSON\<close>, \<open>FormatYAML\<close>, \<open>FormatCSV\<close>, are
  declared in the missing package \<open>types\<close>; the design document gives the three tokens
  as \<open>json\<close>, \<open>yaml\<close> and \<open>csv\<close>, matched case-sensitively.
\<close>

datatype Format = FormatErr | JSON | YAML | CSV

definition FormatJSON :: string where "FormatJSON = ''json''"
definition FormatYAML :: string where "FormatYAML = ''yaml''"
definition FormatCSV :: string where "FormatCSV = ''csv''"

definition parseFormat :: "string \<Rightarrow> error + Format" where
  "parseFormat format =
     (if format = FormatJSON then Inr JSON
      else if format = FormatYAML then Inr YAML
      else if format = FormatCSV then Inr CSV
      else Inl (''failed to parse format: '' @ format @ ''. options are: (json/yaml/csv)''))"

text \<open>
  The collaborators of \<open>New\<close> and \<open>addFromFile\<close>: the cluster client, the two endpoint-slice
  steps, the file system (\<open>filepath.Clean\<close>, \<open>os.Open\<close>, \<open>io.ReadAll\<close>) and the three
  decoders. Each returns its error or its value. The file operations a call performs
  are recorded, in order, next to its result.
\<close>

record ('cs, 'eps, 'f) collaborators =
  clientNew :: "string \<Rightarrow> error + 'cs"
  GetIngressEndpointSlicesInfo :: "'cs \<Rightarrow> error + 'eps"
  ToComDetails :: "'cs \<Rightarrow> 'eps \<Rightarrow> error + ComDetails list"
  filepathClean :: "string \<Rightarrow> string"
  osOpen :: "string \<Rightarrow> error + 'f"
  ioReadAll :: "'f \<Rightarrow> error + string"
  jsonUnmarshal :: "string \<Rightarrow> error + ComDetails list"
  yamlUnmarshal :: "string \<Rightarrow> error + ComDetails list"
  gocsvUnmarshalBytes :: "string \<Rightarrow> error + ComDetails list"

datatype fileOp = Open string | ReadAll string | Close string

definition unmarshalError :: "error + ComDetails list \<Rightarrow> error + ComDetails list" where
  "unmarshalError r =
     (case r of
        Inl err \<Rightarrow> Inl (''failed to unmarshal custom entries file: '' @ err)
      | Inr res \<Rightarrow> Inr res)"

definition addFromFile ::
  "('cs, 'eps, 'f) collaborators \<Rightarrow> string \<Rightarrow> Format \<Rightarrow> (error + ComDetails list) \<times> fileOp list" where
  "addFromFile co fp format =
     (case osOpen co (filepathClean co fp) of
        Inl err \<Rightarrow>
          (Inl (''failed to open file '' @ fp @ '': '' @ err), [Open (filepathClean co fp)])
      | Inr f \<Rightarrow>
          (case ioReadAll co f of
             Inl err \<Rightarrow>
               (Inl (''failed to read file '' @ fp @ '': '' @ err),
                [Open (filepathClean co fp), ReadAll (filepathClean co fp),
                 Close (filepathClean co fp)])
           | Inr raw \<Rightarrow>
               ((case format of
                   JSON \<Rightarrow> unmarshalError (jsonUnmarshal co raw)
                 | YAML \<Rightarrow> unmarshalError (yamlUnmarshal co raw)
                 | CSV \<Rightarrow> unmarshalError (gocsvUnmarshalBytes co raw)
                 | FormatErr \<Rightarrow> Inl ''invalid value for format must be (json,yaml,csv)''),
                [Open (filepathClean co fp), ReadAll (filepathClean co fp),
                 Close (filepathClean co fp)])))"

section \<open>Matrix assembly pipeline (New)\<close>

text \<open>
  \<open>New\<close> returns at the first step that fails. The accumulator \<open>res\<close> starts empty and is
  appended to three times; the result carries the file operations performed.
  \<open>customEntries\<close> is the block guarded by \<open>customEntriesPath != ""\<close> together with the
  two statements after it.
\<close>

definition customEntries ::
  "('cs, 'eps, 'f) collaborators \<Rightarrow> ComDetails list \<Rightarrow> string \<Rightarrow> string
     \<Rightarrow> (error + ComMatrix) \<times> fileOp list" where
  "customEntries co res customEntriesPath customEntriesFormat =
     (if customEntriesPath \<noteq> [] then
        (case parseFormat customEntriesFormat of
           Inl err \<Rightarrow> (Inl (''failed adding custom entries: '' @ err), [])
         | Inr inputFormat \<Rightarrow>
             (case addFromFile co customEntriesPath inputFormat of
                (Inl err, ops) \<Rightarrow> (Inl (''failed adding custom entries: '' @ err), ops)
              | (Inr customComDetails, ops) \<Rightarrow>
                  (Inr \<lparr>Matrix = CleanComDetails (res @ customComDetails)\<rparr>, ops)))
      else (Inr \<lparr>Matrix = CleanComDetails res\<rparr>, []))"

definition New ::
  "staticTables \<Rightarrow> ('cs, 'eps, 'f) collaborators \<Rightarrow> string \<Rightarrow> string \<Rightarrow> string \<Rightarrow> Env
     \<Rightarrow> Deployment \<Rightarrow> (error + ComMatrix) \<times> fileOp list" where
  "New T co kubeconfigPath customEntriesPath customEntriesFormat e d =
     (case clientNew co kubeconfigPath of
        Inl err \<Rightarrow> (Inl (''failed creating the k8s client: '' @ err), [])
      | Inr cs \<Rightarrow>
     (case GetIngressEndpointSlicesInfo co cs of
        Inl err \<Rightarrow> (Inl (''failed getting endpointslices: '' @ err), [])
      | Inr epSlicesInfo \<Rightarrow>
     (case ToComDetails co cs epSlicesInfo of
        Inl err \<Rightarrow> (Inl err, [])
      | Inr epSliceComDetails \<Rightarrow>
     (case getStaticEntries T e d of
        Inl err \<Rightarrow> (Inl (''failed adding static entries: '' @ err), [])
      | Inr staticEntries \<Rightarrow>
          customEntries co (([] @ epSliceComDetails) @ staticEntries)
            customEntriesPath customEntriesFormat))))"

section \<open>Example data\<close>

text \<open>
  Concrete records, tables and collaborators on which the theorems are exercised. In
  \<open>exampleCluster\<close> the cluster-derived record collides with a static record and a custom
  record collides with another static record; the colliding records differ in
  \<open>Optional\<close> only.
\<close>

definition flow :: "string \<Rightarrow> int \<Rightarrow> string \<Rightarrow> string \<Rightarrow> ComDetails" where
  "flow protocol port service role =
     \<lparr>Direction = ''Ingress'', Protocol = protocol, Port = port, Namespace = [],
      Service = service, Pod = [], Container = [], NodeRole = role, Optional = False\<rparr>"

definition exampleString :: "ComDetails \<Rightarrow> string" where
  "exampleString cd = Protocol cd @ '','' @ Service cd @ '','' @ NodeRole cd"

definition exampleTables :: staticTables where
  "exampleTables =
     \<lparr>baremetalStaticEntriesMaster = [flow ''TCP'' 22 ''sshd'' ''master''],
      baremetalStaticEntriesWorker = [flow ''TCP'' 22 ''sshd'' ''worker''],
      awsCloudStaticEntriesMaster = [flow ''TCP'' 10258 ''cloud-controller'' ''master''],
      awsCloudStaticEntriesWorker = [flow ''TCP'' 10304 ''csi-node-driver'' ''worker''],
      generalStaticEntriesMaster = [flow ''TCP'' 9100 ''node-exporter'' ''master''],
      MNOStaticEntries = [flow ''UDP'' 6081 ''ovn-kubernetes geneve'' ''worker''],
      generalStaticEntriesWorker = [flow ''TCP'' 9100 ''node-exporter'' ''worker'']\<rparr>"

definition exampleCluster :: "(unit, unit, string) collaborators" where
  "exampleCluster =
     \<lparr>clientNew = (\<lambda>kubeconfig. Inr ()),
      GetIngressEndpointSlicesInfo = (\<lambda>cs. Inr ()),
      ToComDetails =
        (\<lambda>cs eps. Inr [(flow ''TCP'' 9100 ''node-exporter'' ''master'')\<lparr>Optional := True\<rparr>]),
      filepathClean = (\<lambda>fp. fp),
      osOpen = (\<lambda>fp. Inr fp),
      ioReadAll = (\<lambda>f. Inr ''[]''),
      jsonUnmarshal =
        (\<lambda>raw. Inr [flow ''UDP'' 53 ''dns'' ''master'',
                     (flow ''TCP'' 22 ''sshd'' ''master'')\<lparr>Optional := True\<rparr>]),
      yamlUnmarshal = (\<lambda>raw. Inr []),
      gocsvUnmarshalBytes = (\<lambda>raw. Inr [])\<rparr>"

definition unreachableCluster :: "(unit, unit, string) collaborators" where
  "unreachableCluster = exampleCluster\<lparr>clientNew := (\<lambda>kubeconfig. Inl ''no such host'')\<rparr>"

definition exampleNodes :: cluster where
  "exampleNodes =
     \<lparr>nodesList = Inr [\<lparr>Name = ''master-0'', Role = ''master''\<rparr>,
                       \<lparr>Name = ''worker-0'', Role = ''worker''\<rparr>],
      debugNew = (\<lambda>node. None),
      podExec = (\<lambda>node command. None)\<rparr>"

section \<open>Properties of the entity model\<close>

lemma Equals_sym: "Equals a b = Equals b a"
  by (auto simp: Equals_def)

lemma containsLoop_iff: "containsLoop xs cd = (\<exists>x \<in> set xs. Equals x cd)"
  by (induction xs) auto

lemma containsLoop_append:
  "containsLoop (xs @ ys) cd = (containsLoop xs cd \<or> containsLoop ys cd)"
  by (auto simp: containsLoop_iff)

lemma Equals_refl: "Equals a a"
  by (simp add: Equals_def)

lemma Equals_trans: "Equals a b \<Longrightarrow> Equals b c \<Longrightarrow> Equals a c"
  by (simp add: Equals_def)

lemma find_append_cases:
  "find P (xs @ ys) = (case find P xs of None \<Rightarrow> find P ys | Some x \<Rightarrow> Some x)"
  by (induction xs) simp_all

lemma cleanLoop_append: "cleanLoop res (xs @ ys) = cleanLoop (cleanLoop res xs) ys"
  by (induction xs arbitrary: res) simp_all

lemma containsLoop_cleanLoop:
  "containsLoop (cleanLoop res xs) z = (containsLoop res z \<or> containsLoop xs z)"
proof (induction xs arbitrary: res)
  case Nil
  then show ?case by simp
next
  case (Cons x xs)
  show ?case
  proof (cases "containsLoop res x")
    case True
    then obtain r where r: "r \<in> set res" "Equals r x"
      by (auto simp: containsLoop_iff)
    have "Equals x z \<Longrightarrow> containsLoop res z"
      using r Equals_trans by (auto simp: containsLoop_iff)
    with True Cons.IH [of res] show ?thesis by auto
  next
    case False
    with Cons.IH [of "res @ [x]"] show ?thesis
      by (auto simp: containsLoop_append)
  qed
qed

lemma distinct_cleanLoop:
  "distinct (map identity res) \<Longrightarrow> distinct (map identity (cleanLoop res xs))"
proof (induction xs arbitrary: res)
  case Nil
  then show ?case by simp
next
  case (Cons x xs)
  show ?case
  proof (cases "containsLoop res x")
    case True
    with Cons show ?thesis by simp
  next
    case False
    then have "identity x \<notin> identity ` set res"
      by (auto simp: containsLoop_iff Equals_def)
    with Cons.prems have "distinct (map identity (res @ [x]))"
      by simp
    from Cons.IH [OF this] False show ?thesis by simp
  qed
qed

lemma first_cleanLoop:
  assumes "\<forall>r \<in> set res. find (\<lambda>x. Equals x r) pre = Some r"
    and "\<forall>y \<in> set pre. containsLoop res y"
    and "r \<in> set (cleanLoop res xs)"
  shows "find (\<lambda>x. Equals x r) (pre @ xs) = Some r"
  using assms
proof (induction xs arbitrary: res pre)
  case Nil
  then show ?case by simp
next
  case (Cons x xs)
  show ?case
  proof (cases "containsLoop res x")
    case True
    have a: "\<forall>r \<in> set res. find (\<lambda>x. Equals x r) (pre @ [x]) = Some r"
      using Cons.prems(1) by (simp add: find_append_cases)
    have b: "\<forall>y \<in> set (pre @ [x]). containsLoop res y"
      using Cons.prems(2) True by simp
    have c: "r \<in> set (cleanLoop res xs)"
      using Cons.prems(3) True by simp
    from Cons.IH [OF a b c] show ?thesis by simp
  next
    case False
    have none: "find (\<lambda>y. Equals y x) pre = None"
    proof (rule ccontr)
      assume "find (\<lambda>y. Equals y x) pre \<noteq> None"
      then obtain y where y: "y \<in> set pre" "Equals y x"
        by (auto simp: find_None_iff)
      with Cons.prems(2) obtain r' where "r' \<in> set res" "Equals r' y"
        by (auto simp: containsLoop_iff)
      with y have "containsLoop res x"
        using Equals_trans by (auto simp: containsLoop_iff)
      with False show False by simp
    qed
    have a: "\<forall>r \<in> set (res @ [x]). find (\<lambda>x. Equals x r) (pre @ [x]) = Some r"
      using Cons.prems(1) none by (auto simp: find_append_cases Equals_refl)
    have b: "\<forall>y \<in> set (pre @ [x]). containsLoop (res @ [x]) y"
      using Cons.prems(2) by (auto simp: containsLoop_append Equals_refl)
    have c: "r \<in> set (cleanLoop (res @ [x]) xs)"
      using Cons.prems(3) False by simp
    from Cons.IH [OF a b c] show ?thesis by simp
  qed
qed

lemma CleanComDetails_first:
  "r \<in> set (CleanComDetails xs) \<Longrightarrow> find (\<lambda>x. Equals x r) xs = Some r"
  using first_cleanLoop [of "[]" "[]" r xs] by (simp add: CleanComDetails_def)

lemma CleanComDetails_complete:
  assumes "x \<in> set xs"
  shows "containsLoop (CleanComDetails xs) x"
proof -
  from assms have "containsLoop xs x"
    unfolding containsLoop_iff using Equals_refl by blast
  then show ?thesis
    by (simp add: CleanComDetails_def containsLoop_cleanLoop)
qed

lemma CleanComDetails_distinct: "distinct (map identity (CleanComDetails xs))"
  by (simp add: CleanComDetails_def distinct_cleanLoop)

lemma find_first_source:
  assumes "find P (xs @ ys) = Some r" and "\<exists>x \<in> set xs. P x"
  shows "r \<in> set xs"
proof -
  from assms(2) obtain x where "find P xs = Some x"
    by (cases "find P xs") (auto simp: find_None_iff)
  with assms(1) have "find P xs = Some r"
    by (simp add: find_append_cases)
  then show ?thesis
    by (auto simp: find_Some_iff)
qed

lemma find_second_source:
  assumes "find P (xs @ ys @ zs) = Some r" and "\<not> (\<exists>x \<in> set xs. P x)" and "\<exists>y \<in> set ys. P y"
  shows "r \<in> set ys"
proof -
  from assms(2) have "find P xs = None"
    by (simp add: find_None_iff)
  with assms(1) have "find P (ys @ zs) = Some r"
    by (simp add: find_append_cases)
  from this assms(3) show ?thesis
    by (rule find_first_source)
qed

section \<open>Properties of the diff\<close>

lemma declaredLoop_lines:
  "declaredLoop String mat2 diff cds =
     diff @ writeLines (map (declaredLine String mat2) cds)"
  by (induction cds arbitrary: diff) (simp_all add: writeLines_def declaredLine_def)

lemma observedLoop_lines:
  "observedLoop String mat1 diff cds =
     diff @ writeLines (map (\<lambda>cd. ''- '' @ String cd) (filter (undeclared mat1) cds))"
  by (induction cds arbitrary: diff) (simp_all add: writeLines_def undeclared_def)

lemma writeLines_append: "writeLines (xs @ ys) = writeLines xs @ writeLines ys"
  by (simp add: writeLines_def)

lemma buildMatrixDiff_lines:
  "buildMatrixDiff CSVHeaders String mat1 mat2 =
     writeLines (diffLines CSVHeaders String mat1 mat2)"
  by (simp add: buildMatrixDiff_def declaredLoop_lines observedLoop_lines diffLines_def
      writeLines_def)

lemma Contains_without:
  assumes "\<not> Contains mat1 cd" and "c \<in> set (Matrix mat1)"
  shows "Contains \<lparr>Matrix = xs @ cd # ys\<rparr> c = Contains \<lparr>Matrix = xs @ ys\<rparr> c"
proof -
  from assms have "\<not> Equals c cd"
    by (auto simp: Contains_def containsLoop_iff)
  then have "\<not> Equals cd c"
    by (simp add: Equals_sym)
  then show ?thesis
    by (simp add: Contains_def containsLoop_append)
qed

text \<open>
  C3. For every declared matrix \<open>mat1\<close> and observed matrix \<open>mat2\<close> the diff is the header
  line, then one line per record of \<open>mat1\<close> in \<open>mat1\<close>'s order (the record unprefixed if
  \<open>mat2\<close> contains it, prefixed with \<open>+\<close> otherwise), then one line prefixed with \<open>-\<close> per
  record of \<open>mat2\<close>, in \<open>mat2\<close>'s order, that \<open>mat1\<close> does not contain and whose service is
  not \<open>rpc.statd\<close>; each line is closed by a newline and nothing else is written.
\<close>

theorem buildMatrixDiff_structure:
  "buildMatrixDiff CSVHeaders String mat1 mat2 =
     writeLines
       ([CSVHeaders]
        @ map (\<lambda>cd. if Contains mat2 cd then String cd else ''+ '' @ String cd) (Matrix mat1)
        @ map (\<lambda>cd. ''- '' @ String cd)
            (filter (\<lambda>cd. \<not> Contains mat1 cd \<and> Service cd \<noteq> ''rpc.statd'') (Matrix mat2)))"
proof -
  have m: "map (declaredLine String mat2) (Matrix mat1) =
      map (\<lambda>cd. if Contains mat2 cd then String cd else ''+ '' @ String cd) (Matrix mat1)"
    by (rule map_cong) (simp_all add: declaredLine_def)
  have f: "filter (undeclared mat1) (Matrix mat2) =
      filter (\<lambda>cd. \<not> Contains mat1 cd \<and> Service cd \<noteq> ''rpc.statd'') (Matrix mat2)"
    by (rule filter_cong) (auto simp: undeclared_def)
  show ?thesis
    unfolding buildMatrixDiff_lines diffLines_def m f by simp
qed

text \<open>
  C2. A record of the observed matrix \<open>mat2\<close> whose service is \<open>rpc.statd\<close> and that the
  declared matrix \<open>mat1\<close> does not contain leaves no trace in the diff: the output is the
  one obtained from \<open>mat2\<close> without that record.
\<close>

theorem statd_record_not_in_diff:
  assumes "Service cd = ''rpc.statd''"
    and "\<not> Contains mat1 cd"
    and "Matrix mat2 = xs @ cd # ys"
  shows "buildMatrixDiff CSVHeaders String mat1 mat2 =
         buildMatrixDiff CSVHeaders String mat1 \<lparr>Matrix = xs @ ys\<rparr>"
proof -
  have mat2: "mat2 = \<lparr>Matrix = xs @ cd # ys\<rparr>"
    using assms(3) by simp
  have decl: "map (declaredLine String \<lparr>Matrix = xs @ cd # ys\<rparr>) (Matrix mat1) =
      map (declaredLine String \<lparr>Matrix = xs @ ys\<rparr>) (Matrix mat1)"
    by (rule map_cong) (simp_all add: declaredLine_def Contains_without [OF assms(2)])
  have obs: "filter (undeclared mat1) (xs @ cd # ys) = filter (undeclared mat1) (xs @ ys)"
    using assms(1) by (simp add: undeclared_def)
  show ?thesis
    unfolding mat2 buildMatrixDiff_lines diffLines_def decl using obs by simp
qed

lemmas example_eval = flow_def Contains_def Equals_def identity_def

theorem statd_record_not_in_diff_witness:
  "Service (flow ''UDP'' 111 ''rpc.statd'' ''master'') = ''rpc.statd''
   \<and> \<not> Contains \<lparr>Matrix = [flow ''TCP'' 22 ''sshd'' ''master'']\<rparr>
         (flow ''UDP'' 111 ''rpc.statd'' ''master'')
   \<and> buildMatrixDiff ''Protocol,Service,Node Role'' exampleString
        \<lparr>Matrix = [flow ''TCP'' 22 ''sshd'' ''master'']\<rparr>
        \<lparr>Matrix = [flow ''TCP'' 22 ''sshd'' ''master'',
                    flow ''UDP'' 111 ''rpc.statd'' ''master'']\<rparr>
     = buildMatrixDiff ''Protocol,Service,Node Role'' exampleString
        \<lparr>Matrix = [flow ''TCP'' 22 ''sshd'' ''master'']\<rparr>
        \<lparr>Matrix = [flow ''TCP'' 22 ''sshd'' ''master'']\<rparr>"
  using statd_record_not_in_diff
    [of "flow ''UDP'' 111 ''rpc.statd'' ''master''"
        "\<lparr>Matrix = [flow ''TCP'' 22 ''sshd'' ''master'']\<rparr>"
        "\<lparr>Matrix = [flow ''TCP'' 22 ''sshd'' ''master'',
                    flow ''UDP'' 111 ''rpc.statd'' ''master'']\<rparr>"
        "[flow ''TCP'' 22 ''sshd'' ''master'']" "[]"
        "''Protocol,Service,Node Role''" exampleString]
  by (simp add: example_eval)

section \<open>Properties of the firewall rule generator\<close>

lemma natDigits_small: "n < 10 \<Longrightarrow> natDigits n = [digitChar n]"
  by (simp add: natDigits.simps)

lemma natDigits_large:
  "\<not> n < 10 \<Longrightarrow> natDigits n = natDigits (n div 10) @ [digitChar (n mod 10)]"
  by (subst natDigits.simps) simp

lemmas Sprint_eval = Sprint_def natDigits_small natDigits_large digitChar_def

lemmas firewall_eval = ApplyFireWallRules_def trimSeparator_def nodeTask_def exampleNodes_def
  firewallCommands_def flow_def Sprint_eval

lemma portsLoop_acc:
  "portsLoop role tcp udp cds =
     (tcp @ renderPorts (rolePorts ''TCP'' role cds),
      udp @ renderPorts (rolePorts ''UDP'' role cds))"
  by (induction cds arbitrary: tcp udp) (simp_all add: renderPorts_def rolePorts_def)

lemma rolePorts_empty_iff:
  "rolePorts protocol role cds = [] \<longleftrightarrow>
     {Port cd | cd. cd \<in> set cds \<and> NodeRole cd = role \<and> Protocol cd = protocol} = {}"
  by (auto simp: rolePorts_def filter_empty_conv)

lemma count_rolePorts:
  "count_list (rolePorts protocol role cds) p =
     length (filter (\<lambda>cd. NodeRole cd = role \<and> Protocol cd = protocol \<and> Port cd = p) cds)"
  by (induction cds) (simp_all add: rolePorts_def)

lemma trimSeparator_empty: "trimSeparator [] = Inl (sliceBoundsPanic (- 2))"
  by (simp add: trimSeparator_def)

text \<open>With at least one port the string ends in the separator and the slice succeeds.\<close>

lemma renderPorts_length: "ps \<noteq> [] \<Longrightarrow> 2 \<le> length (renderPorts ps)"
  by (cases ps) (simp_all add: renderPorts_def)

lemma trimSeparator_renderPorts:
  "ps \<noteq> [] \<Longrightarrow>
     trimSeparator (renderPorts ps) = Inr (take (length (renderPorts ps) - 2) (renderPorts ps))"
  using renderPorts_length [of ps] by (simp add: trimSeparator_def nat_diff_distrib')

lemma trimSeparator_renderPorts_Inl:
  assumes "trimSeparator (renderPorts ps) = Inl p"
  shows "p = sliceBoundsPanic (- 2)"
proof (cases "ps = []")
  case True
  with assms show ?thesis
    by (simp add: renderPorts_def trimSeparator_empty)
next
  case False
  from trimSeparator_renderPorts [OF this] assms show ?thesis
    by simp
qed

lemma ApplyFireWallRules_no_tcp:
  assumes "rolePorts ''TCP'' role (Matrix m) = []"
  shows "ApplyFireWallRules cs m role = (Inl (sliceBoundsPanic (- 2)), [])"
  using assms
  by (simp add: ApplyFireWallRules_def portsLoop_acc renderPorts_def trimSeparator_empty)

lemma ApplyFireWallRules_no_udp:
  assumes "rolePorts ''UDP'' role (Matrix m) = []"
  shows "ApplyFireWallRules cs m role = (Inl (sliceBoundsPanic (- 2)), [])"
proof (cases "trimSeparator (renderPorts (rolePorts ''TCP'' role (Matrix m)))")
  case (Inl p)
  with trimSeparator_renderPorts_Inl [OF Inl] show ?thesis
    by (simp add: ApplyFireWallRules_def portsLoop_acc)
next
  case (Inr tcpPorts)
  with assms show ?thesis
    by (simp add: ApplyFireWallRules_def portsLoop_acc renderPorts_def trimSeparator_empty)
qed

lemma sliceBoundsPanic_message:
  "sliceBoundsPanic (- 2) = Panic ''runtime error: slice bounds out of range [:-2]''"
  by (simp add: sliceBoundsPanic_def Sprint_eval)

text \<open>
  C1. With an empty set of TCP ports, or of UDP ports, among the records of the matrix
  whose \<open>NodeRole\<close> is the target role, \<open>ApplyFireWallRules\<close> returns no error value:
  the slice expression that trims the separator has the upper bound \<open>-2\<close> and panics at
  run time, before the nodes are listed or any command is sent. No rule with an empty
  port list is produced, but neither is the caller error \<open>NoPortsForRole\<close> of the design
  document.
\<close>

theorem no_ports_for_role:
  assumes "{Port cd | cd. cd \<in> set (Matrix m) \<and> NodeRole cd = role \<and> Protocol cd = ''TCP''} = {}
         \<or> {Port cd | cd. cd \<in> set (Matrix m) \<and> NodeRole cd = role \<and> Protocol cd = ''UDP''} = {}"
  shows "ApplyFireWallRules cs m role =
           (Inl (Panic ''runtime error: slice bounds out of range [:-2]''), [])
       \<and> (\<forall>err. fst (ApplyFireWallRules cs m role) \<noteq> Inl (Error err))"
proof -
  from assms have "ApplyFireWallRules cs m role = (Inl (sliceBoundsPanic (- 2)), [])"
    using ApplyFireWallRules_no_tcp ApplyFireWallRules_no_udp
    unfolding rolePorts_empty_iff [symmetric] by blast
  then show ?thesis
    by (simp add: sliceBoundsPanic_message)
qed

theorem no_ports_for_role_witness:
  "{Port cd | cd. cd \<in> set (Matrix \<lparr>Matrix = [flow ''TCP'' 22 ''sshd'' ''master'',
         flow ''UDP'' 6081 ''geneve'' ''worker'']\<rparr>)
        \<and> NodeRole cd = ''master'' \<and> Protocol cd = ''UDP''} = {}
   \<and> ApplyFireWallRules exampleNodes
        \<lparr>Matrix = [flow ''TCP'' 22 ''sshd'' ''master'', flow ''UDP'' 6081 ''geneve'' ''worker'']\<rparr>
        ''master''
      = (Inl (Panic ''runtime error: slice bounds out of range [:-2]''), [])"
proof -
  let ?m = "\<lparr>Matrix = [flow ''TCP'' 22 ''sshd'' ''master'',
                         flow ''UDP'' 6081 ''geneve'' ''worker'']\<rparr>"
  have h: "{Port cd | cd. cd \<in> set (Matrix ?m)
             \<and> NodeRole cd = ''master'' \<and> Protocol cd = ''UDP''} = {}"
    by (auto simp: flow_def)
  from h no_ports_for_role [where m = ?m and role = "''master''" and cs = exampleNodes]
  have "ApplyFireWallRules exampleNodes ?m ''master'' =
      (Inl (Panic ''runtime error: slice bounds out of range [:-2]''), [])"
    by blast
  with h show ?thesis
    by (intro conjI)
qed

text \<open>
  C4, as amended. The TCP string and the UDP string hold, in matrix order, the port of
  every record of the role with that protocol, once per record: a port occurs in a list
  as many times as there are such records that carry it. Nothing removes a repeated
  port, so the ports are distinct only when no two such records share one.
\<close>

theorem port_lists_per_record:
  "portsLoop role [] [] cds =
     (concat (map (\<lambda>p. Sprint p @ '', '')
        (map Port (filter (\<lambda>cd. NodeRole cd = role \<and> Protocol cd = ''TCP'') cds))),
      concat (map (\<lambda>p. Sprint p @ '', '')
        (map Port (filter (\<lambda>cd. NodeRole cd = role \<and> Protocol cd = ''UDP'') cds))))
   \<and> count_list (map Port (filter (\<lambda>cd. NodeRole cd = role \<and> Protocol cd = protocol) cds)) p =
       length (filter (\<lambda>cd. NodeRole cd = role \<and> Protocol cd = protocol \<and> Port cd = p) cds)"
  using count_rolePorts [of protocol role cds p]
  by (simp add: portsLoop_acc rolePorts_def renderPorts_def)

text \<open>
  C4 as stated fails: two records of the role with protocol TCP and port 9100 that differ
  in their service (so neither is a duplicate of the other, and deduplication keeps
  both) put the port twice into the TCP list and into the rule sent to the node.
\<close>

theorem duplicate_port_counterexample:
  "identity (flow ''TCP'' 9100 ''node-exporter'' ''master'')
     \<noteq> identity (flow ''TCP'' 9100 ''metrics'' ''master'')
   \<and> CleanComDetails [flow ''TCP'' 9100 ''node-exporter'' ''master'',
        flow ''TCP'' 9100 ''metrics'' ''master'', flow ''UDP'' 53 ''dns'' ''master'']
      = [flow ''TCP'' 9100 ''node-exporter'' ''master'',
        flow ''TCP'' 9100 ''metrics'' ''master'', flow ''UDP'' 53 ''dns'' ''master'']
   \<and> portsLoop ''master'' [] [] [flow ''TCP'' 9100 ''node-exporter'' ''master'',
        flow ''TCP'' 9100 ''metrics'' ''master'', flow ''UDP'' 53 ''dns'' ''master'']
      = (''9100, 9100, '', ''53, '')
   \<and> \<not> distinct (rolePorts ''TCP'' ''master'' [flow ''TCP'' 9100 ''node-exporter'' ''master'',
        flow ''TCP'' 9100 ''metrics'' ''master'', flow ''UDP'' 53 ''dns'' ''master''])
   \<and> ApplyFireWallRules exampleNodes
        \<lparr>Matrix = [flow ''TCP'' 9100 ''node-exporter'' ''master'',
           flow ''TCP'' 9100 ''metrics'' ''master'', flow ''UDP'' 53 ''dns'' ''master'']\<rparr> ''master''
      = (Inr (), [(''master-0'', firewallCommands ''9100, 9100'' ''53'')])"
  by (simp add: firewall_eval rolePorts_def CleanComDetails_def Equals_def identity_def)

text \<open>
  C10. A record adds its port (and the separator) to the TCP string, at its place in
  matrix order, if and only if its \<open>NodeRole\<close> is the target role and its \<open>Protocol\<close> is
  exactly \<open>TCP\<close>, and to the UDP string if and only if the role matches and the protocol
  is exactly \<open>UDP\<close>. A record of another role or another protocol adds nothing to either:
  \<open>ApplyFireWallRules\<close> behaves as if the record were not in the matrix.
\<close>

theorem record_contribution:
  "portsLoop role [] [] (xs @ cd # ys) =
     (fst (portsLoop role [] [] xs)
        @ (if NodeRole cd = role \<and> Protocol cd = ''TCP'' then Sprint (Port cd) @ '', '' else [])
        @ fst (portsLoop role [] [] ys),
      snd (portsLoop role [] [] xs)
        @ (if NodeRole cd = role \<and> Protocol cd = ''UDP'' then Sprint (Port cd) @ '', '' else [])
        @ snd (portsLoop role [] [] ys))
   \<and> (NodeRole cd \<noteq> role \<or> (Protocol cd \<noteq> ''TCP'' \<and> Protocol cd \<noteq> ''UDP'') \<longrightarrow>
        ApplyFireWallRules cs \<lparr>Matrix = xs @ cd # ys\<rparr> role =
        ApplyFireWallRules cs \<lparr>Matrix = xs @ ys\<rparr> role)"
proof
  show "portsLoop role [] [] (xs @ cd # ys) =
     (fst (portsLoop role [] [] xs)
        @ (if NodeRole cd = role \<and> Protocol cd = ''TCP'' then Sprint (Port cd) @ '', '' else [])
        @ fst (portsLoop role [] [] ys),
      snd (portsLoop role [] [] xs)
        @ (if NodeRole cd = role \<and> Protocol cd = ''UDP'' then Sprint (Port cd) @ '', '' else [])
        @ snd (portsLoop role [] [] ys))"
    by (simp add: portsLoop_acc rolePorts_def renderPorts_def)
next
  show "NodeRole cd \<noteq> role \<or> (Protocol cd \<noteq> ''TCP'' \<and> Protocol cd \<noteq> ''UDP'') \<longrightarrow>
        ApplyFireWallRules cs \<lparr>Matrix = xs @ cd # ys\<rparr> role =
        ApplyFireWallRules cs \<lparr>Matrix = xs @ ys\<rparr> role"
  proof
    assume "NodeRole cd \<noteq> role \<or> (Protocol cd \<noteq> ''TCP'' \<and> Protocol cd \<noteq> ''UDP'')"
    then have "portsLoop role [] [] (xs @ cd # ys) = portsLoop role [] [] (xs @ ys)"
      by (auto simp: portsLoop_acc rolePorts_def)
    then show "ApplyFireWallRules cs \<lparr>Matrix = xs @ cd # ys\<rparr> role =
        ApplyFireWallRules cs \<lparr>Matrix = xs @ ys\<rparr> role"
      by (simp add: ApplyFireWallRules_def)
  qed
qed

theorem record_contribution_witness:
  "Protocol (flow ''SCTP'' 5000 ''sctp-app'' ''master'') \<noteq> ''TCP''
   \<and> Protocol (flow ''SCTP'' 5000 ''sctp-app'' ''master'') \<noteq> ''UDP''
   \<and> ApplyFireWallRules exampleNodes
        \<lparr>Matrix = [flow ''TCP'' 22 ''sshd'' ''master''] @ flow ''SCTP'' 5000 ''sctp-app'' ''master''
                    # [flow ''UDP'' 53 ''dns'' ''master'']\<rparr> ''master''
      = (Inr (), [(''master-0'', firewallCommands ''22'' ''53'')])"
proof -
  have h: "NodeRole (flow ''SCTP'' 5000 ''sctp-app'' ''master'') \<noteq> ''master''
      \<or> (Protocol (flow ''SCTP'' 5000 ''sctp-app'' ''master'') \<noteq> ''TCP''
          \<and> Protocol (flow ''SCTP'' 5000 ''sctp-app'' ''master'') \<noteq> ''UDP'')"
    by (simp add: flow_def)
  have r: "ApplyFireWallRules exampleNodes
        \<lparr>Matrix = [flow ''TCP'' 22 ''sshd'' ''master''] @ [flow ''UDP'' 53 ''dns'' ''master'']\<rparr>
        ''master'' = (Inr (), [(''master-0'', firewallCommands ''22'' ''53'')])"
    by (simp add: firewall_eval)
  from h record_contribution
    [where cd = "flow ''SCTP'' 5000 ''sctp-app'' ''master''" and role = "''master''"
       and xs = "[flow ''TCP'' 22 ''sshd'' ''master'']"
       and ys = "[flow ''UDP'' 53 ''dns'' ''master'']" and cs = exampleNodes]
  have "ApplyFireWallRules exampleNodes
        \<lparr>Matrix = [flow ''TCP'' 22 ''sshd'' ''master''] @ flow ''SCTP'' 5000 ''sctp-app'' ''master''
                    # [flow ''UDP'' 53 ''dns'' ''master'']\<rparr> ''master''
      = ApplyFireWallRules exampleNodes
        \<lparr>Matrix = [flow ''TCP'' 22 ''sshd'' ''master''] @ [flow ''UDP'' 53 ''dns'' ''master'']\<rparr>
        ''master''"
    by blast
  with r have "ApplyFireWallRules exampleNodes
        \<lparr>Matrix = [flow ''TCP'' 22 ''sshd'' ''master''] @ flow ''SCTP'' 5000 ''sctp-app'' ''master''
                    # [flow ''UDP'' 53 ''dns'' ''master'']\<rparr> ''master''
      = (Inr (), [(''master-0'', firewallCommands ''22'' ''53'')])"
    by (simp only:)
  then show ?thesis
    by (simp add: flow_def)
qed

section \<open>Properties of the static catalogue\<close>

lemmas env_consts = Baremetal_def AWS_def SNO_def MNO_def

lemma getStaticEntries_SNO:
  "e = Baremetal \<or> e = AWS \<Longrightarrow>
   getStaticEntries T e SNO =
     Inr ((if e = Baremetal then baremetalStaticEntriesMaster T else awsCloudStaticEntriesMaster T)
          @ generalStaticEntriesMaster T)"
  by (auto simp: getStaticEntries_def envEntries_def env_consts)

lemma getStaticEntries_MNO:
  "e = Baremetal \<or> e = AWS \<Longrightarrow>
   getStaticEntries T e MNO =
     Inr ((if e = Baremetal then baremetalStaticEntriesMaster T else awsCloudStaticEntriesMaster T)
          @ (if e = Baremetal then baremetalStaticEntriesWorker T else awsCloudStaticEntriesWorker T)
          @ generalStaticEntriesMaster T @ MNOStaticEntries T @ generalStaticEntriesWorker T)"
  by (auto simp: getStaticEntries_def envEntries_def env_consts)

text \<open>
  C6. For the environments \<open>Baremetal\<close> and \<open>AWS\<close>, \<open>getStaticEntries\<close> returns for \<open>SNO\<close> the
  environment's master table followed by the general master table, and for \<open>MNO\<close> the
  environment's master table, the environment's worker table, the general master table,
  the multi-node table and the general worker table, in that order.
\<close>

theorem getStaticEntries_tables:
  "getStaticEntries T Baremetal SNO =
     Inr (baremetalStaticEntriesMaster T @ generalStaticEntriesMaster T)
   \<and> getStaticEntries T AWS SNO =
     Inr (awsCloudStaticEntriesMaster T @ generalStaticEntriesMaster T)
   \<and> getStaticEntries T Baremetal MNO =
     Inr (baremetalStaticEntriesMaster T @ baremetalStaticEntriesWorker T
          @ generalStaticEntriesMaster T @ MNOStaticEntries T @ generalStaticEntriesWorker T)
   \<and> getStaticEntries T AWS MNO =
     Inr (awsCloudStaticEntriesMaster T @ awsCloudStaticEntriesWorker T
          @ generalStaticEntriesMaster T @ MNOStaticEntries T @ generalStaticEntriesWorker T)"
  by (simp add: getStaticEntries_def envEntries_def env_consts)

text \<open>
  C7. For the environments \<open>Baremetal\<close> and \<open>AWS\<close>, both selections succeed and every record
  of the \<open>SNO\<close> selection is a record of the \<open>MNO\<close> selection; so the identities of the
  first are among the identities of the second.
\<close>

theorem single_node_subset_of_multi_node:
  assumes "e = Baremetal \<or> e = AWS"
  shows "\<exists>s m. getStaticEntries T e SNO = Inr s \<and> getStaticEntries T e MNO = Inr m
           \<and> set s \<subseteq> set m \<and> identity ` set s \<subseteq> identity ` set m"
  unfolding getStaticEntries_SNO [OF assms] getStaticEntries_MNO [OF assms] by auto

theorem single_node_subset_of_multi_node_witness:
  "(AWS = Baremetal \<or> AWS = AWS)
   \<and> (\<exists>s m. getStaticEntries exampleTables AWS SNO = Inr s
          \<and> getStaticEntries exampleTables AWS MNO = Inr m
          \<and> set s \<subseteq> set m \<and> identity ` set s \<subseteq> identity ` set m)"
  using single_node_subset_of_multi_node [of AWS exampleTables] by simp

section \<open>Properties of the assembly pipeline\<close>

lemmas New_eval = New_def customEntries_def parseFormat_def addFromFile_def unmarshalError_def
  getStaticEntries_def envEntries_def env_consts exampleCluster_def unreachableCluster_def
  exampleTables_def CleanComDetails_def flow_def Equals_def identity_def
  FormatJSON_def FormatYAML_def FormatCSV_def

lemma customEntries_no_path:
  "customEntries co res [] fmt = (Inr \<lparr>Matrix = CleanComDetails res\<rparr>, [])"
  by (simp add: customEntries_def)

lemma customEntries_bad_format:
  assumes "path \<noteq> []" and "fmt \<notin> {''json'', ''yaml'', ''csv''}"
  shows "customEntries co res path fmt =
     (Inl (''failed adding custom entries: ''
           @ ''failed to parse format: '' @ fmt @ ''. options are: (json/yaml/csv)''), [])"
  using assms
  by (simp add: customEntries_def parseFormat_def FormatJSON_def FormatYAML_def FormatCSV_def)

lemma customEntries_success:
  assumes "customEntries co res path fmt = (Inr m, ops)"
  shows "\<exists>cu. (if path = [] then cu = []
               else \<exists>f. parseFormat fmt = Inr f \<and> fst (addFromFile co path f) = Inr cu)
           \<and> Matrix m = CleanComDetails (res @ cu)"
proof (cases "path = []")
  case True
  with assms show ?thesis
    by (auto simp: customEntries_no_path)
next
  case False
  with assms show ?thesis
    by (auto simp: customEntries_def split: sum.splits prod.splits)
qed

lemma New_steps:
  assumes "clientNew co kube = Inr cs" and "GetIngressEndpointSlicesInfo co cs = Inr eps"
    and "ToComDetails co cs eps = Inr ep" and "getStaticEntries T e d = Inr st"
  shows "New T co kube path fmt e d = customEntries co (ep @ st) path fmt"
  using assms by (simp add: New_def)

lemma New_cases:
  "(\<exists>err. New T co kube path fmt e d = (Inl err, []))
   \<or> (\<exists>cs eps ep st. clientNew co kube = Inr cs \<and> GetIngressEndpointSlicesInfo co cs = Inr eps
        \<and> ToComDetails co cs eps = Inr ep \<and> getStaticEntries T e d = Inr st
        \<and> New T co kube path fmt e d = customEntries co (ep @ st) path fmt)"
  by (simp add: New_def split: sum.splits)

text \<open>
  C5. Whenever \<open>New\<close> succeeds, the three sources were obtained and the returned matrix
  is \<open>CleanComDetails\<close> of their concatenation in the order cluster-derived entries,
  static entries, custom entries (none when no path is given). Every record of the
  result is the first record of that concatenation with its identity; so a record whose
  identity occurs among the cluster-derived entries is the cluster-derived one, and a
  record whose identity occurs among the static entries but not among the cluster-derived
  ones is the static one, never the custom one.
\<close>

theorem New_matrix_order:
  assumes "New T co kube path fmt e d = (Inr m, ops)"
  shows "\<exists>cs eps ep st cu.
      clientNew co kube = Inr cs \<and> GetIngressEndpointSlicesInfo co cs = Inr eps
    \<and> ToComDetails co cs eps = Inr ep
    \<and> getStaticEntries T e d = Inr st
    \<and> (if path = [] then cu = []
        else \<exists>f. parseFormat fmt = Inr f \<and> fst (addFromFile co path f) = Inr cu)
    \<and> Matrix m = CleanComDetails (ep @ st @ cu)
    \<and> (\<forall>r \<in> set (Matrix m). find (\<lambda>x. Equals x r) (ep @ st @ cu) = Some r)
    \<and> (\<forall>r \<in> set (Matrix m).
          (containsLoop ep r \<longrightarrow> r \<in> set ep)
        \<and> (\<not> containsLoop ep r \<and> containsLoop st r \<longrightarrow> r \<in> set st))"
proof -
  from New_cases [of T co kube path fmt e d] assms
  obtain cs eps ep st where steps:
    "clientNew co kube = Inr cs" "GetIngressEndpointSlicesInfo co cs = Inr eps"
    "ToComDetails co cs eps = Inr ep" "getStaticEntries T e d = Inr st"
    and "customEntries co (ep @ st) path fmt = (Inr m, ops)"
    by auto
  from customEntries_success [OF this(5)]
  obtain cu where cu: "if path = [] then cu = []
      else \<exists>f. parseFormat fmt = Inr f \<and> fst (addFromFile co path f) = Inr cu"
    and m: "Matrix m = CleanComDetails (ep @ st @ cu)"
    by auto
  have first: "\<forall>r \<in> set (Matrix m). find (\<lambda>x. Equals x r) (ep @ st @ cu) = Some r"
    unfolding m using CleanComDetails_first by blast
  have wins: "\<forall>r \<in> set (Matrix m).
          (containsLoop ep r \<longrightarrow> r \<in> set ep)
        \<and> (\<not> containsLoop ep r \<and> containsLoop st r \<longrightarrow> r \<in> set st)"
  proof
    fix r
    assume "r \<in> set (Matrix m)"
    with first have f: "find (\<lambda>x. Equals x r) (ep @ st @ cu) = Some r"
      by simp
    show "(containsLoop ep r \<longrightarrow> r \<in> set ep)
        \<and> (\<not> containsLoop ep r \<and> containsLoop st r \<longrightarrow> r \<in> set st)"
      using find_first_source [OF f] find_second_source [OF f]
      by (simp add: containsLoop_iff)
  qed
  from steps cu m first wins show ?thesis
    by blast
qed

theorem New_matrix_order_witness:
  "New exampleTables exampleCluster ''kubeconfig'' ''custom.json'' ''json'' Baremetal MNO =
     (Inr \<lparr>Matrix =
        [(flow ''TCP'' 9100 ''node-exporter'' ''master'')\<lparr>Optional := True\<rparr>,
         flow ''TCP'' 22 ''sshd'' ''master'',
         flow ''TCP'' 22 ''sshd'' ''worker'',
         flow ''UDP'' 6081 ''ovn-kubernetes geneve'' ''worker'',
         flow ''TCP'' 9100 ''node-exporter'' ''worker'',
         flow ''UDP'' 53 ''dns'' ''master'']\<rparr>,
      [Open ''custom.json'', ReadAll ''custom.json'', Close ''custom.json''])
   \<and> [(flow ''TCP'' 9100 ''node-exporter'' ''master'')\<lparr>Optional := True\<rparr>,
         flow ''TCP'' 22 ''sshd'' ''master'',
         flow ''TCP'' 22 ''sshd'' ''worker'',
         flow ''UDP'' 6081 ''ovn-kubernetes geneve'' ''worker'',
         flow ''TCP'' 9100 ''node-exporter'' ''worker'',
         flow ''UDP'' 53 ''dns'' ''master'']
       = CleanComDetails
          ([(flow ''TCP'' 9100 ''node-exporter'' ''master'')\<lparr>Optional := True\<rparr>]
           @ [flow ''TCP'' 22 ''sshd'' ''master'',
              flow ''TCP'' 22 ''sshd'' ''worker'',
              flow ''TCP'' 9100 ''node-exporter'' ''master'',
              flow ''UDP'' 6081 ''ovn-kubernetes geneve'' ''worker'',
              flow ''TCP'' 9100 ''node-exporter'' ''worker'']
           @ [flow ''UDP'' 53 ''dns'' ''master'',
              (flow ''TCP'' 22 ''sshd'' ''master'')\<lparr>Optional := True\<rparr>])"
proof -
  let ?M = "\<lparr>Matrix =
        [(flow ''TCP'' 9100 ''node-exporter'' ''master'')\<lparr>Optional := True\<rparr>,
         flow ''TCP'' 22 ''sshd'' ''master'',
         flow ''TCP'' 22 ''sshd'' ''worker'',
         flow ''UDP'' 6081 ''ovn-kubernetes geneve'' ''worker'',
         flow ''TCP'' 9100 ''node-exporter'' ''worker'',
         flow ''UDP'' 53 ''dns'' ''master'']\<rparr>"
  have h: "New exampleTables exampleCluster ''kubeconfig'' ''custom.json'' ''json'' Baremetal MNO =
     (Inr ?M, [Open ''custom.json'', ReadAll ''custom.json'', Close ''custom.json''])"
    by (simp add: New_eval)
  from New_matrix_order [OF h] obtain cs eps ep st cu where
    ep: "ToComDetails exampleCluster cs eps = Inr ep"
    and st: "getStaticEntries exampleTables Baremetal MNO = Inr st"
    and cu: "if ''custom.json'' = [] then cu = []
             else \<exists>f. parseFormat ''json'' = Inr f
                    \<and> fst (addFromFile exampleCluster ''custom.json'' f) = Inr cu"
    and m: "Matrix ?M = CleanComDetails (ep @ st @ cu)"
    by blast
  from ep have ep': "ep = [(flow ''TCP'' 9100 ''node-exporter'' ''master'')\<lparr>Optional := True\<rparr>]"
    by (simp add: exampleCluster_def)
  from st have st': "st = [flow ''TCP'' 22 ''sshd'' ''master'',
              flow ''TCP'' 22 ''sshd'' ''worker'',
              flow ''TCP'' 9100 ''node-exporter'' ''master'',
              flow ''UDP'' 6081 ''ovn-kubernetes geneve'' ''worker'',
              flow ''TCP'' 9100 ''node-exporter'' ''worker'']"
    by (simp add: getStaticEntries_def envEntries_def env_consts exampleTables_def)
  from cu have cu': "cu = [flow ''UDP'' 53 ''dns'' ''master'',
              (flow ''TCP'' 22 ''sshd'' ''master'')\<lparr>Optional := True\<rparr>]"
    by (simp add: parseFormat_def FormatJSON_def addFromFile_def unmarshalError_def
        exampleCluster_def)
  from m [unfolded ep' st' cu'] h show ?thesis
    by (simp only: ComMatrix.simps simp_thms)
qed

lemma New_client_fails:
  "clientNew co kube = Inl err \<Longrightarrow>
   New T co kube path fmt e d = (Inl (''failed creating the k8s client: '' @ err), [])"
  by (simp add: New_def)

lemma New_endpointslices_fail:
  "clientNew co kube = Inr cs \<Longrightarrow> GetIngressEndpointSlicesInfo co cs = Inl err \<Longrightarrow>
   New T co kube path fmt e d = (Inl (''failed getting endpointslices: '' @ err), [])"
  by (simp add: New_def)

lemma New_ToComDetails_fails:
  "clientNew co kube = Inr cs \<Longrightarrow> GetIngressEndpointSlicesInfo co cs = Inr eps \<Longrightarrow>
   ToComDetails co cs eps = Inl err \<Longrightarrow>
   New T co kube path fmt e d = (Inl err, [])"
  by (simp add: New_def)

lemma New_static_fails:
  "clientNew co kube = Inr cs \<Longrightarrow> GetIngressEndpointSlicesInfo co cs = Inr eps \<Longrightarrow>
   ToComDetails co cs eps = Inr ep \<Longrightarrow> getStaticEntries T e d = Inl err \<Longrightarrow>
   New T co kube path fmt e d = (Inl (''failed adding static entries: '' @ err), [])"
  by (simp add: New_def)

text \<open>
  C8, as amended. With a non-empty custom-entries path and a format token other than
  \<open>json\<close>, \<open>yaml\<close> and \<open>csv\<close> (compared case-sensitively), \<open>New\<close> always fails and performs no
  file operation. When the client, the two endpoint-slice steps and the static selection
  succeed, the error is the one of \<open>parseFormat\<close>, wrapped by \<open>New\<close>. When one of those
  steps fails, the error is that of the first step that fails: the client's and the
  endpoint-slice listing's and the static selection's each under its own prefix, the
  translation's unchanged.
\<close>

theorem bad_format_fails_before_file_io:
  assumes "path \<noteq> []" and "fmt \<notin> {''json'', ''yaml'', ''csv''}"
  shows "(\<exists>err. fst (New T co kube path fmt e d) = Inl err)
       \<and> snd (New T co kube path fmt e d) = []
       \<and> (\<forall>cs eps ep st.
            clientNew co kube = Inr cs \<and> GetIngressEndpointSlicesInfo co cs = Inr eps
            \<and> ToComDetails co cs eps = Inr ep \<and> getStaticEntries T e d = Inr st \<longrightarrow>
            fst (New T co kube path fmt e d) =
              Inl (''failed adding custom entries: ''
                   @ ''failed to parse format: '' @ fmt @ ''. options are: (json/yaml/csv)''))
       \<and> (\<forall>err. clientNew co kube = Inl err \<longrightarrow>
            fst (New T co kube path fmt e d) = Inl (''failed creating the k8s client: '' @ err))
       \<and> (\<forall>cs err.
            clientNew co kube = Inr cs \<and> GetIngressEndpointSlicesInfo co cs = Inl err \<longrightarrow>
            fst (New T co kube path fmt e d) = Inl (''failed getting endpointslices: '' @ err))
       \<and> (\<forall>cs eps err.
            clientNew co kube = Inr cs \<and> GetIngressEndpointSlicesInfo co cs = Inr eps
            \<and> ToComDetails co cs eps = Inl err \<longrightarrow>
            fst (New T co kube path fmt e d) = Inl err)
       \<and> (\<forall>cs eps ep err.
            clientNew co kube = Inr cs \<and> GetIngressEndpointSlicesInfo co cs = Inr eps
            \<and> ToComDetails co cs eps = Inr ep \<and> getStaticEntries T e d = Inl err \<longrightarrow>
            fst (New T co kube path fmt e d) = Inl (''failed adding static entries: '' @ err))"
proof -
  have a: "(\<exists>err. fst (New T co kube path fmt e d) = Inl err)
       \<and> snd (New T co kube path fmt e d) = []
       \<and> (\<forall>cs eps ep st.
            clientNew co kube = Inr cs \<and> GetIngressEndpointSlicesInfo co cs = Inr eps
            \<and> ToComDetails co cs eps = Inr ep \<and> getStaticEntries T e d = Inr st \<longrightarrow>
            fst (New T co kube path fmt e d) =
              Inl (''failed adding custom entries: ''
                   @ ''failed to parse format: '' @ fmt @ ''. options are: (json/yaml/csv)''))"
    using New_cases [of T co kube path fmt e d]
    by (auto simp: customEntries_bad_format [OF assms] New_steps)
  have b: "\<forall>err. clientNew co kube = Inl err \<longrightarrow>
            fst (New T co kube path fmt e d) = Inl (''failed creating the k8s client: '' @ err)"
    by (simp add: New_client_fails)
  have c: "\<forall>cs err.
            clientNew co kube = Inr cs \<and> GetIngressEndpointSlicesInfo co cs = Inl err \<longrightarrow>
            fst (New T co kube path fmt e d) = Inl (''failed getting endpointslices: '' @ err)"
    by (simp add: New_endpointslices_fail)
  have d: "\<forall>cs eps err.
            clientNew co kube = Inr cs \<and> GetIngressEndpointSlicesInfo co cs = Inr eps
            \<and> ToComDetails co cs eps = Inl err \<longrightarrow>
            fst (New T co kube path fmt e d) = Inl err"
    by (simp add: New_ToComDetails_fails)
  have e: "\<forall>cs eps ep err.
            clientNew co kube = Inr cs \<and> GetIngressEndpointSlicesInfo co cs = Inr eps
            \<and> ToComDetails co cs eps = Inr ep \<and> getStaticEntries T e d = Inl err \<longrightarrow>
            fst (New T co kube path fmt e d) = Inl (''failed adding static entries: '' @ err)"
    by (simp add: New_static_fails)
  note a1 = a [THEN conjunct1]
    and a2 = a [THEN conjunct2, THEN conjunct1]
    and a3 = a [THEN conjunct2, THEN conjunct2]
  from a1 a2 a3 b c d e show ?thesis
    by (intro conjI)
qed

theorem bad_format_fails_before_file_io_witness:
  "''custom.xml'' \<noteq> [] \<and> ''xml'' \<notin> {''json'', ''yaml'', ''csv''}
   \<and> New exampleTables exampleCluster ''kubeconfig'' ''custom.xml'' ''xml'' Baremetal MNO =
       (Inl ''failed adding custom entries: failed to parse format: xml. options are: (json/yaml/csv)'',
        [])
   \<and> New exampleTables unreachableCluster ''kubeconfig'' ''custom.xml'' ''xml'' Baremetal MNO =
       (Inl ''failed creating the k8s client: no such host'', [])
   \<and> New exampleTables (exampleCluster\<lparr>GetIngressEndpointSlicesInfo := \<lambda>cs. Inl ''forbidden''\<rparr>)
         ''kubeconfig'' ''custom.xml'' ''xml'' Baremetal MNO =
       (Inl ''failed getting endpointslices: forbidden'', [])
   \<and> New exampleTables (exampleCluster\<lparr>ToComDetails := \<lambda>cs eps. Inl ''node not found''\<rparr>)
         ''kubeconfig'' ''custom.xml'' ''xml'' Baremetal MNO =
       (Inl ''node not found'', [])
   \<and> New exampleTables exampleCluster ''kubeconfig'' ''custom.xml'' ''xml'' 7 MNO =
       (Inl ''failed adding static entries: invalid value for cluster environment'', [])"
proof -
  have p: "''custom.xml'' \<noteq> []" and f: "''xml'' \<notin> {''json'', ''yaml'', ''csv''}"
    by simp_all
  note t = bad_format_fails_before_file_io [OF p f]
  have ok: "clientNew exampleCluster ''kubeconfig'' = Inr ()"
    "GetIngressEndpointSlicesInfo exampleCluster () = Inr ()"
    "ToComDetails exampleCluster () () =
       Inr [(flow ''TCP'' 9100 ''node-exporter'' ''master'')\<lparr>Optional := True\<rparr>]"
    by (simp_all add: exampleCluster_def)
  have st: "getStaticEntries exampleTables Baremetal MNO =
          Inr (baremetalStaticEntriesMaster exampleTables @ baremetalStaticEntriesWorker exampleTables
               @ generalStaticEntriesMaster exampleTables @ MNOStaticEntries exampleTables
               @ generalStaticEntriesWorker exampleTables)"
    by (simp add: getStaticEntries_def envEntries_def env_consts)
  have bad: "getStaticEntries exampleTables 7 MNO = Inl ''invalid value for cluster environment''"
    by (simp add: getStaticEntries_def envEntries_def env_consts)
  have down: "clientNew unreachableCluster ''kubeconfig'' = Inl ''no such host''"
    by (simp add: unreachableCluster_def)
  have eps: "clientNew (exampleCluster\<lparr>GetIngressEndpointSlicesInfo := \<lambda>cs. Inl ''forbidden''\<rparr>)
        ''kubeconfig'' = Inr ()"
    "GetIngressEndpointSlicesInfo
       (exampleCluster\<lparr>GetIngressEndpointSlicesInfo := \<lambda>cs. Inl ''forbidden''\<rparr>) () = Inl ''forbidden''"
    by (simp_all add: exampleCluster_def)
  have tcd: "clientNew (exampleCluster\<lparr>ToComDetails := \<lambda>cs eps. Inl ''node not found''\<rparr>)
        ''kubeconfig'' = Inr ()"
    "GetIngressEndpointSlicesInfo
       (exampleCluster\<lparr>ToComDetails := \<lambda>cs eps. Inl ''node not found''\<rparr>) () = Inr ()"
    "ToComDetails (exampleCluster\<lparr>ToComDetails := \<lambda>cs eps. Inl ''node not found''\<rparr>) () () =
       Inl ''node not found''"
    by (simp_all add: exampleCluster_def)
  from t [of exampleTables exampleCluster "''kubeconfig''" Baremetal MNO] ok st
  have "fst (New exampleTables exampleCluster ''kubeconfig'' ''custom.xml'' ''xml'' Baremetal MNO) =
      Inl (''failed adding custom entries: '' @ ''failed to parse format: '' @ ''xml''
           @ ''. options are: (json/yaml/csv)'')"
    and "snd (New exampleTables exampleCluster ''kubeconfig'' ''custom.xml'' ''xml'' Baremetal MNO) = []"
    by blast+
  then have r1: "New exampleTables exampleCluster ''kubeconfig'' ''custom.xml'' ''xml'' Baremetal MNO =
       (Inl ''failed adding custom entries: failed to parse format: xml. options are: (json/yaml/csv)'',
        [])"
    by (simp add: prod_eq_iff)
  from t [of exampleTables unreachableCluster "''kubeconfig''" Baremetal MNO] down
  have "fst (New exampleTables unreachableCluster ''kubeconfig'' ''custom.xml'' ''xml'' Baremetal MNO) =
      Inl (''failed creating the k8s client: '' @ ''no such host'')"
    and "snd (New exampleTables unreachableCluster ''kubeconfig'' ''custom.xml'' ''xml'' Baremetal MNO) = []"
    by blast+
  then have r2: "New exampleTables unreachableCluster ''kubeconfig'' ''custom.xml'' ''xml'' Baremetal MNO =
       (Inl ''failed creating the k8s client: no such host'', [])"
    by (simp add: prod_eq_iff)
  from t [of exampleTables "exampleCluster\<lparr>GetIngressEndpointSlicesInfo := \<lambda>cs. Inl ''forbidden''\<rparr>"
      "''kubeconfig''" Baremetal MNO] eps
  have "fst (New exampleTables (exampleCluster\<lparr>GetIngressEndpointSlicesInfo := \<lambda>cs. Inl ''forbidden''\<rparr>)
         ''kubeconfig'' ''custom.xml'' ''xml'' Baremetal MNO) =
      Inl (''failed getting endpointslices: '' @ ''forbidden'')"
    and "snd (New exampleTables (exampleCluster\<lparr>GetIngressEndpointSlicesInfo := \<lambda>cs. Inl ''forbidden''\<rparr>)
         ''kubeconfig'' ''custom.xml'' ''xml'' Baremetal MNO) = []"
    by blast+
  then have r3: "New exampleTables (exampleCluster\<lparr>GetIngressEndpointSlicesInfo := \<lambda>cs. Inl ''forbidden''\<rparr>)
         ''kubeconfig'' ''custom.xml'' ''xml'' Baremetal MNO =
       (Inl ''failed getting endpointslices: forbidden'', [])"
    by (simp add: prod_eq_iff)
  from t [of exampleTables "exampleCluster\<lparr>ToComDetails := \<lambda>cs eps. Inl ''node not found''\<rparr>"
      "''kubeconfig''" Baremetal MNO] tcd
  have "fst (New exampleTables (exampleCluster\<lparr>ToComDetails := \<lambda>cs eps. Inl ''node not found''\<rparr>)
         ''kubeconfig'' ''custom.xml'' ''xml'' Baremetal MNO) = Inl ''node not found''"
    and "snd (New exampleTables (exampleCluster\<lparr>ToComDetails := \<lambda>cs eps. Inl ''node not found''\<rparr>)
         ''kubeconfig'' ''custom.xml'' ''xml'' Baremetal MNO) = []"
    by blast+
  then have r4: "New exampleTables (exampleCluster\<lparr>ToComDetails := \<lambda>cs eps. Inl ''node not found''\<rparr>)
         ''kubeconfig'' ''custom.xml'' ''xml'' Baremetal MNO =
       (Inl ''node not found'', [])"
    by (simp add: prod_eq_iff)
  from t [of exampleTables exampleCluster "''kubeconfig''" 7 MNO] ok bad
  have "fst (New exampleTables exampleCluster ''kubeconfig'' ''custom.xml'' ''xml'' 7 MNO) =
      Inl (''failed adding static entries: '' @ ''invalid value for cluster environment'')"
    and "snd (New exampleTables exampleCluster ''kubeconfig'' ''custom.xml'' ''xml'' 7 MNO) = []"
    by blast+
  then have r5: "New exampleTables exampleCluster ''kubeconfig'' ''custom.xml'' ''xml'' 7 MNO =
       (Inl ''failed adding static entries: invalid value for cluster environment'', [])"
    by (simp add: prod_eq_iff)
  from p f r1 r2 r3 r4 r5 show ?thesis
    by (intro conjI)
qed

text \<open>
  C8 as stated fails: with a cluster client that cannot be created, the same call returns
  the client error, not the error about the format.
\<close>

theorem bad_format_unreachable_cluster_counterexample:
  "''custom.xml'' \<noteq> [] \<and> ''xml'' \<notin> {''json'', ''yaml'', ''csv''}
   \<and> New exampleTables unreachableCluster ''kubeconfig'' ''custom.xml'' ''xml'' Baremetal MNO =
       (Inl ''failed creating the k8s client: no such host'', [])
   \<and> fst (New exampleTables unreachableCluster ''kubeconfig'' ''custom.xml'' ''xml'' Baremetal MNO) \<noteq>
       Inl ''failed adding custom entries: failed to parse format: xml. options are: (json/yaml/csv)''"
  by (simp add: New_def unreachableCluster_def exampleCluster_def)

text \<open>
  C9. With an empty custom-entries path the format token is neither validated nor used:
  the outcome of \<open>New\<close> is the same for every token, no file operation is performed, and
  when the other steps succeed \<open>New\<close> succeeds with the deduplicated cluster-derived and
  static entries.
\<close>

theorem empty_path_ignores_format:
  "New T co kube [] fmt e d = New T co kube [] fmt' e d
   \<and> snd (New T co kube [] fmt e d) = []
   \<and> (\<forall>cs eps ep st.
        clientNew co kube = Inr cs \<and> GetIngressEndpointSlicesInfo co cs = Inr eps
        \<and> ToComDetails co cs eps = Inr ep \<and> getStaticEntries T e d = Inr st \<longrightarrow>
        fst (New T co kube [] fmt e d) = Inr \<lparr>Matrix = CleanComDetails (ep @ st)\<rparr>)"
proof -
  have "New T co kube [] fmt e d = New T co kube [] fmt' e d"
    by (simp add: New_def customEntries_no_path split: sum.splits)
  moreover have "snd (New T co kube [] fmt e d) = []"
    using New_cases [of T co kube "[]" fmt e d]
    by (auto simp: customEntries_no_path)
  ultimately show ?thesis
    by (simp add: New_steps customEntries_no_path)
qed

theorem empty_path_ignores_format_witness:
  "New exampleTables exampleCluster ''kubeconfig'' [] ''xml'' Baremetal SNO =
     (Inr \<lparr>Matrix = [(flow ''TCP'' 9100 ''node-exporter'' ''master'')\<lparr>Optional := True\<rparr>,
                    flow ''TCP'' 22 ''sshd'' ''master'']\<rparr>, [])
   \<and> New exampleTables exampleCluster ''kubeconfig'' [] ''xml'' Baremetal SNO =
     New exampleTables exampleCluster ''kubeconfig'' [] ''json'' Baremetal SNO"
proof -
  have s: "clientNew exampleCluster ''kubeconfig'' = Inr ()
      \<and> GetIngressEndpointSlicesInfo exampleCluster () = Inr ()
      \<and> ToComDetails exampleCluster () () =
          Inr [(flow ''TCP'' 9100 ''node-exporter'' ''master'')\<lparr>Optional := True\<rparr>]
      \<and> getStaticEntries exampleTables Baremetal SNO =
          Inr [flow ''TCP'' 22 ''sshd'' ''master'', flow ''TCP'' 9100 ''node-exporter'' ''master'']"
    by (simp add: exampleCluster_def exampleTables_def getStaticEntries_def envEntries_def
        env_consts)
  have c: "CleanComDetails
      ([(flow ''TCP'' 9100 ''node-exporter'' ''master'')\<lparr>Optional := True\<rparr>]
       @ [flow ''TCP'' 22 ''sshd'' ''master'', flow ''TCP'' 9100 ''node-exporter'' ''master''])
      = [(flow ''TCP'' 9100 ''node-exporter'' ''master'')\<lparr>Optional := True\<rparr>,
         flow ''TCP'' 22 ''sshd'' ''master'']"
    by (simp add: CleanComDetails_def flow_def Equals_def identity_def)
  note t = empty_path_ignores_format
    [of exampleTables exampleCluster "''kubeconfig''" "''xml''" Baremetal SNO "''json''"]
  from t s have "fst (New exampleTables exampleCluster ''kubeconfig'' [] ''xml'' Baremetal SNO) =
      Inr \<lparr>Matrix = CleanComDetails
        ([(flow ''TCP'' 9100 ''node-exporter'' ''master'')\<lparr>Optional := True\<rparr>]
         @ [flow ''TCP'' 22 ''sshd'' ''master'', flow ''TCP'' 9100 ''node-exporter'' ''master''])\<rparr>"
    by blast
  moreover from t
  have "snd (New exampleTables exampleCluster ''kubeconfig'' [] ''xml'' Baremetal SNO) = []"
    by blast
  ultimately
  have "New exampleTables exampleCluster ''kubeconfig'' [] ''xml'' Baremetal SNO =
     (Inr \<lparr>Matrix = [(flow ''TCP'' 9100 ''node-exporter'' ''master'')\<lparr>Optional := True\<rparr>,
                    flow ''TCP'' 22 ''sshd'' ''master'']\<rparr>, [])"
    unfolding c by (simp add: prod_eq_iff)
  moreover from t
  have "New exampleTables exampleCluster ''kubeconfig'' [] ''xml'' Baremetal SNO =
     New exampleTables exampleCluster ''kubeconfig'' [] ''json'' Baremetal SNO"
    by blast
  ultimately show ?thesis
    by (simp only: simp_thms)
qed

end
